theory Spec2Isabelle
  imports Complex_Main
begin

section \<open>JavaScript values\<close>

text \<open>
  The program is the browser script \<^verbatim>\<open>static/map.js\<close>. Its data are JavaScript
  values parsed from JSON responses. A number is either finite or one of the three
  non-finite values the script tests for with \<^verbatim>\<open>Number.isFinite\<close>. A finite number
  is the real it denotes. The ratio of the value encoding is computed with the rounding
  and the overflow of doubles, which decide what its clamp returns; the other arithmetic
  of the script is exact, and the sign of zero is not represented.
\<close>

datatype jsnum = Fin real | PInf | NInf | NaN

datatype jsval =
    Undefined
  | Null
  | Bool bool
  | Num jsnum
  | Str string
  | Arr "jsval list"
  | Obj "(string \<times> jsval) list"

datatype error = TypeError | Rejected

text \<open>
  Built-ins of the host whose result depends on text parsing or printing of numbers are
  parameters of the model: \<open>str_to_num\<close> is \<^verbatim>\<open>Number(s)\<close> on a string,
  \<open>num_to_str\<close> is \<^verbatim>\<open>String(n)\<close> on a number and \<open>date_time\<close> is
  \<^verbatim>\<open>new Date(v).getTime()\<close>. So is \<open>round_double\<close>, the rounding of a real
  within the range of doubles to the nearest double.
\<close>

record host =
  str_to_num :: "string \<Rightarrow> jsnum"
  num_to_str :: "jsnum \<Rightarrow> string"
  date_time :: "jsval \<Rightarrow> jsnum"
  round_double :: "real \<Rightarrow> real"

subsection \<open>Numbers\<close>

fun isFinite :: "jsnum \<Rightarrow> bool" where
  "isFinite (Fin r) = True"
| "isFinite PInf = False"
| "isFinite NInf = False"
| "isFinite NaN = False"

text \<open>\<open>jlt a b\<close> is \<^verbatim>\<open>a < b\<close> on numbers: false as soon as one side is NaN.\<close>

fun jlt :: "jsnum \<Rightarrow> jsnum \<Rightarrow> bool" where
  "jlt (Fin a) (Fin b) = (a < b)"
| "jlt (Fin a) PInf = True"
| "jlt (Fin a) NInf = False"
| "jlt NInf (Fin b) = True"
| "jlt NInf PInf = True"
| "jlt NInf NInf = False"
| "jlt PInf (Fin b) = False"
| "jlt PInf PInf = False"
| "jlt PInf NInf = False"
| "jlt NaN b = False"
| "jlt a NaN = False"

fun jneg :: "jsnum \<Rightarrow> jsnum" where
  "jneg (Fin a) = Fin (- a)"
| "jneg PInf = NInf"
| "jneg NInf = PInf"
| "jneg NaN = NaN"

fun jadd :: "jsnum \<Rightarrow> jsnum \<Rightarrow> jsnum" where
  "jadd (Fin a) (Fin b) = Fin (a + b)"
| "jadd (Fin a) PInf = PInf"
| "jadd (Fin a) NInf = NInf"
| "jadd PInf (Fin b) = PInf"
| "jadd PInf PInf = PInf"
| "jadd PInf NInf = NaN"
| "jadd NInf (Fin b) = NInf"
| "jadd NInf NInf = NInf"
| "jadd NInf PInf = NaN"
| "jadd NaN b = NaN"
| "jadd a NaN = NaN"

definition jsub :: "jsnum \<Rightarrow> jsnum \<Rightarrow> jsnum" where
  "jsub a b = jadd a (jneg b)"

text \<open>The sign of a number that is not NaN: \<open>-1\<close>, \<open>0\<close> or \<open>1\<close>.\<close>

fun jsign :: "jsnum \<Rightarrow> int" where
  "jsign (Fin a) = (if a < 0 then - 1 else if a = 0 then 0 else 1)"
| "jsign PInf = 1"
| "jsign NInf = - 1"
| "jsign NaN = 0"

definition inf_of_sign :: "int \<Rightarrow> jsnum" where
  "inf_of_sign s = (if s < 0 then NInf else PInf)"

fun jmul :: "jsnum \<Rightarrow> jsnum \<Rightarrow> jsnum" where
  "jmul NaN b = NaN"
| "jmul a NaN = NaN"
| "jmul (Fin a) (Fin b) = Fin (a * b)"
| "jmul a b = (if jsign a * jsign b = 0 then NaN else inf_of_sign (jsign a * jsign b))"

text \<open>
  Division never throws: a finite number divided by zero is an infinity (NaN for
  \<^verbatim>\<open>0/0\<close>). With unsigned zero the infinity takes the sign of the dividend.
\<close>

fun jdiv :: "jsnum \<Rightarrow> jsnum \<Rightarrow> jsnum" where
  "jdiv NaN b = NaN"
| "jdiv a NaN = NaN"
| "jdiv (Fin a) (Fin b) =
     (if b \<noteq> 0 then Fin (a / b) else if a = 0 then NaN else inf_of_sign (jsign (Fin a)))"
| "jdiv (Fin a) b = Fin 0"
| "jdiv a (Fin b) = inf_of_sign (jsign a * (if b < 0 then - 1 else 1))"
| "jdiv a b = NaN"

fun jfloor :: "jsnum \<Rightarrow> jsnum" where
  "jfloor (Fin a) = Fin (of_int \<lfloor>a\<rfloor>)"
| "jfloor a = a"

text \<open>\<^verbatim>\<open>Math.round\<close> rounds to the nearest integer, halves upwards.\<close>

fun jround :: "jsnum \<Rightarrow> jsnum" where
  "jround (Fin a) = Fin (of_int \<lfloor>a + 1 / 2\<rfloor>)"
| "jround a = a"

fun jsqrt :: "jsnum \<Rightarrow> jsnum" where
  "jsqrt (Fin a) = (if a < 0 then NaN else Fin (sqrt a))"
| "jsqrt PInf = PInf"
| "jsqrt NInf = NaN"
| "jsqrt NaN = NaN"

text \<open>\<^verbatim>\<open>Math.max\<close> and \<^verbatim>\<open>Math.min\<close> of two numbers: NaN if either is NaN.\<close>

definition jmax :: "jsnum \<Rightarrow> jsnum \<Rightarrow> jsnum" where
  "jmax a b = (if a = NaN \<or> b = NaN then NaN else if jlt a b then b else a)"

definition jmin :: "jsnum \<Rightarrow> jsnum \<Rightarrow> jsnum" where
  "jmin a b = (if a = NaN \<or> b = NaN then NaN else if jlt b a then b else a)"

subsection \<open>Double arithmetic\<close>

text \<open>
  The result of an operation on doubles is its exact result rounded. A result of
  magnitude \<open>2^1024 - 2^970\<close> or more, half a unit beyond the largest double, overflows
  to an infinity; any other result is rounded by the host.
\<close>

definition overflow_bound :: real where
  "overflow_bound = 2 ^ 1024 - 2 ^ 970"

definition to_double :: "host \<Rightarrow> real \<Rightarrow> jsnum" where
  "to_double h x =
     (if overflow_bound \<le> x then PInf
      else if x \<le> - overflow_bound then NInf
      else Fin (round_double h x))"

fun rounded :: "host \<Rightarrow> jsnum \<Rightarrow> jsnum" where
  "rounded h (Fin x) = to_double h x"
| "rounded h n = n"

text \<open>Subtraction and division of doubles.\<close>

definition dsub :: "host \<Rightarrow> jsnum \<Rightarrow> jsnum \<Rightarrow> jsnum" where
  "dsub h a b = rounded h (jsub a b)"

definition ddiv :: "host \<Rightarrow> jsnum \<Rightarrow> jsnum \<Rightarrow> jsnum" where
  "ddiv h a b = rounded h (jdiv a b)"

text \<open>
  What the rounding to the nearest double is used for: it is monotonic, it keeps zero,
  and the difference of two distinct doubles never rounds to zero (doubles underflow
  gradually). A number is a double when rounding leaves it as it is.
\<close>

definition double_rounding :: "host \<Rightarrow> bool" where
  "double_rounding h =
     ((\<forall>x y. x \<le> y \<longrightarrow> round_double h x \<le> round_double h y)
      \<and> round_double h 0 = 0
      \<and> (\<forall>a b. round_double h a = a \<and> round_double h b = b \<and> a < b \<longrightarrow>
             0 < round_double h (b - a)))"

subsection \<open>Truthiness, property access, coercions\<close>

fun truthy :: "jsval \<Rightarrow> bool" where
  "truthy Undefined = False"
| "truthy Null = False"
| "truthy (Bool b) = b"
| "truthy (Num n) = (n \<noteq> Fin 0 \<and> n \<noteq> NaN)"
| "truthy (Str s) = (s \<noteq> [])"
| "truthy (Arr xs) = True"
| "truthy (Obj kvs) = True"

fun nullish :: "jsval \<Rightarrow> bool" where
  "nullish Undefined = True"
| "nullish Null = True"
| "nullish v = False"

fun isArray :: "jsval \<Rightarrow> bool" where
  "isArray (Arr xs) = True"
| "isArray v = False"

text \<open>\<^verbatim>\<open>Number.isFinite(v)\<close> on any value: true only for a finite number.\<close>

fun isFiniteV :: "jsval \<Rightarrow> bool" where
  "isFiniteV (Num n) = isFinite n"
| "isFiniteV v = False"

text \<open>
  \<open>rd_prop v k\<close> reads the named property \<open>k\<close> of a value that is neither
  \<^verbatim>\<open>null\<close> nor \<^verbatim>\<open>undefined\<close>. An object parsed from JSON is the list of its
  own properties (the first binding of a key is the one read). Of the names the script
  reads, arrays and strings have only \<^verbatim>\<open>length\<close>; numbers and booleans have none.
\<close>

fun rd_prop :: "jsval \<Rightarrow> string \<Rightarrow> jsval" where
  "rd_prop (Obj kvs) k = (case map_of kvs k of Some v \<Rightarrow> v | None \<Rightarrow> Undefined)"
| "rd_prop (Arr xs) k = (if k = ''length'' then Num (Fin (real (length xs))) else Undefined)"
| "rd_prop (Str s) k = (if k = ''length'' then Num (Fin (real (length s))) else Undefined)"
| "rd_prop v k = Undefined"

text \<open>Reading a property of \<^verbatim>\<open>null\<close> or \<^verbatim>\<open>undefined\<close> throws a TypeError.\<close>

definition get_prop :: "jsval \<Rightarrow> string \<Rightarrow> error + jsval" where
  "get_prop v k = (if nullish v then Inl TypeError else Inr (rd_prop v k))"

text \<open>The decimal digits of a natural number, as \<^verbatim>\<open>String(i)\<close> prints an index.\<close>

definition digit_char :: "nat \<Rightarrow> char" where
  "digit_char n = ''0123456789'' ! n"

fun digits :: "nat \<Rightarrow> string" where
  "digits n = (if n < 10 then [digit_char n] else digits (n div 10) @ [digit_char (n mod 10)])"

declare digits.simps [simp del]

text \<open>\<open>index v i\<close> is \<^verbatim>\<open>v[i]\<close> for a value that is neither null nor undefined.\<close>

fun index :: "jsval \<Rightarrow> nat \<Rightarrow> jsval" where
  "index (Arr xs) i = (if i < length xs then xs ! i else Undefined)"
| "index (Str s) i = (if i < length s then Str [s ! i] else Undefined)"
| "index (Obj kvs) i = (case map_of kvs (digits i) of Some v \<Rightarrow> v | None \<Rightarrow> Undefined)"
| "index v i = Undefined"

fun join_comma :: "string list \<Rightarrow> string" where
  "join_comma [] = []"
| "join_comma [s] = s"
| "join_comma (s # t # ss) = s @ '','' @ join_comma (t # ss)"

text \<open>\<^verbatim>\<open>String(v)\<close>; an array prints its elements joined by commas, null and
  undefined elements as the empty string.\<close>

fun to_string :: "host \<Rightarrow> jsval \<Rightarrow> string" where
  "to_string h Undefined = ''undefined''"
| "to_string h Null = ''null''"
| "to_string h (Bool b) = (if b then ''true'' else ''false'')"
| "to_string h (Num n) = num_to_str h n"
| "to_string h (Str s) = s"
| "to_string h (Arr xs) =
     join_comma (map (\<lambda>x. if nullish x then [] else to_string h x) xs)"
| "to_string h (Obj kvs) = ''[object Object]''"

text \<open>\<^verbatim>\<open>Number(v)\<close>; arrays and objects are converted through their string.\<close>

fun to_number :: "host \<Rightarrow> jsval \<Rightarrow> jsnum" where
  "to_number h Undefined = NaN"
| "to_number h Null = Fin 0"
| "to_number h (Bool b) = (if b then Fin 1 else Fin 0)"
| "to_number h (Num n) = n"
| "to_number h (Str s) = str_to_num h s"
| "to_number h (Arr xs) = str_to_num h (to_string h (Arr xs))"
| "to_number h (Obj kvs) = NaN"

fun to_primitive :: "host \<Rightarrow> jsval \<Rightarrow> jsval" where
  "to_primitive h (Arr xs) = Str (to_string h (Arr xs))"
| "to_primitive h (Obj kvs) = Str (to_string h (Obj kvs))"
| "to_primitive h v = v"

fun is_str :: "jsval \<Rightarrow> bool" where
  "is_str (Str s) = True"
| "is_str v = False"

text \<open>The \<^verbatim>\<open>+\<close> operator: concatenation once either operand is a string.\<close>

definition js_add :: "host \<Rightarrow> jsval \<Rightarrow> jsval \<Rightarrow> jsval" where
  "js_add h a b =
     (let pa = to_primitive h a; pb = to_primitive h b
      in if is_str pa \<or> is_str pb then Str (to_string h pa @ to_string h pb)
         else Num (jadd (to_number h pa) (to_number h pb)))"

fun str_lt :: "string \<Rightarrow> string \<Rightarrow> bool" where
  "str_lt [] [] = False"
| "str_lt [] (y # ys) = True"
| "str_lt (x # xs) [] = False"
| "str_lt (x # xs) (y # ys) =
     ((of_char x :: nat) < of_char y \<or> (x = y \<and> str_lt xs ys))"

text \<open>The \<^verbatim>\<open>a > b\<close> operator: two strings compare by characters, anything else as
  numbers.\<close>

definition js_gt :: "host \<Rightarrow> jsval \<Rightarrow> jsval \<Rightarrow> bool" where
  "js_gt h a b =
     (case (to_primitive h a, to_primitive h b) of
        (Str s, Str t) \<Rightarrow> str_lt t s
      | (pa, pb) \<Rightarrow> jlt (to_number h pb) (to_number h pa))"

section \<open>Simple helpers\<close>

text \<open>
  \<^verbatim>\<open>toEpochSeconds(value)\<close>: a number below \<open>1e10\<close> is returned as it is, any other
  number is divided by 1000 and floored; anything else is parsed as a date.
\<close>

definition toEpochSeconds :: "host \<Rightarrow> jsval \<Rightarrow> jsnum" where
  "toEpochSeconds h v =
     (case v of
        Num n \<Rightarrow> if jlt n (Fin 10000000000) then n else jfloor (jdiv n (Fin 1000))
      | _ \<Rightarrow> (let t = date_time h v
              in if \<not> isFinite t then NaN else jfloor (jdiv t (Fin 1000))))"

definition emptyFeatureCollection :: jsval where
  "emptyFeatureCollection = Obj [(''type'', Str ''FeatureCollection''), (''features'', Arr [])]"

text \<open>The test of \<^verbatim>\<open>normalizeFeatureCollection\<close>; \<^verbatim>\<open>&&\<close> stops at a falsy
  \<^verbatim>\<open>fc\<close>, so no property of null or undefined is read.\<close>

definition isFeatureCollection :: "jsval \<Rightarrow> bool" where
  "isFeatureCollection fc =
     (truthy fc \<and> rd_prop fc ''type'' = Str ''FeatureCollection'' \<and> isArray (rd_prop fc ''features''))"

definition normalizeFeatureCollection :: "jsval \<Rightarrow> jsval" where
  "normalizeFeatureCollection fc = (if isFeatureCollection fc then fc else emptyFeatureCollection)"

text \<open>
  \<^verbatim>\<open>x.toFixed(2)\<close> on a finite number: the nearest multiple of one hundredth (the
  larger one on a tie) printed with two decimals, after the sign; from \<open>1e21\<close> on, the
  plain string of the number.
\<close>

definition toFixed2 :: "host \<Rightarrow> real \<Rightarrow> string" where
  "toFixed2 h r =
     (let sgn = (if r < 0 then ''-'' else []); x = \<bar>r\<bar>
      in if 10 ^ 21 \<le> x then sgn @ num_to_str h (Fin x)
         else (let n = nat \<lfloor>x * 100 + 1 / 2\<rfloor>;
                   m = digits n;
                   m' = (if length m \<le> 2 then replicate (3 - length m) (CHR ''0'') @ m else m)
               in sgn @ take (length m' - 2) m' @ ''.'' @ drop (length m' - 2) m'))"

text \<open>
  \<^verbatim>\<open>getLineMiddlePoint(coords)\<close>: \<^verbatim>\<open>first[0]\<close> throws when the first or last
  element is null or undefined; the sum is the \<^verbatim>\<open>+\<close> operator and the division by
  two converts its result to a number.
\<close>

definition half_sum :: "host \<Rightarrow> jsval \<Rightarrow> jsval \<Rightarrow> jsnum" where
  "half_sum h a b = jdiv (to_number h (js_add h a b)) (Fin 2)"

definition getLineMiddlePoint :: "host \<Rightarrow> jsval \<Rightarrow> error + (jsnum \<times> jsnum) option" where
  "getLineMiddlePoint h coords =
     (case coords of
        Arr ps \<Rightarrow>
          if length ps < 2 then Inr None
          else (let first = ps ! 0; lst = ps ! (length ps - 1)
                in if nullish first \<or> nullish lst then Inl TypeError
                   else Inr (Some (half_sum h (index first 0) (index lst 0),
                                   half_sum h (index first 1) (index lst 1))))
      | _ \<Rightarrow> Inr None)"

section \<open>Peak and per-road values\<close>

text \<open>
  The ratio computation is written twice in the script, in \<^verbatim>\<open>getPeakPoint\<close> and in
  the \<^verbatim>\<open>getLineColor\<close> accessor of the traffic layer, over the same three variables.
  In the accessor the two bounds are the raw fields of the stored stats, so the
  comparison and the subtractions coerce them. The two subtractions and the division are
  those of doubles.
\<close>

definition ratio_guard :: "host \<Rightarrow> jsnum \<Rightarrow> jsval \<Rightarrow> jsval \<Rightarrow> bool" where
  "ratio_guard h val minValue maxValue = (isFinite val \<and> js_gt h maxValue minValue)"

definition ratio_divisor :: "host \<Rightarrow> jsval \<Rightarrow> jsval \<Rightarrow> jsnum" where
  "ratio_divisor h minValue maxValue = dsub h (to_number h maxValue) (to_number h minValue)"

definition ratio :: "host \<Rightarrow> jsnum \<Rightarrow> jsval \<Rightarrow> jsval \<Rightarrow> jsnum" where
  "ratio h val minValue maxValue =
     (let r = (if ratio_guard h val minValue maxValue
               then ddiv h (dsub h val (to_number h minValue))
                      (ratio_divisor h minValue maxValue)
               else Fin 0)
      in jmax (Fin 0) (jmin (Fin 1) r))"

definition peak_color :: "jsnum \<Rightarrow> nat list" where
  "peak_color r =
     (if jlt r (Fin (33 / 100)) then [46, 127, 255, 255]
      else if jlt r (Fin (66 / 100)) then [39, 209, 124, 255]
      else if jlt r (Fin (9 / 10)) then [255, 212, 77, 255]
      else [255, 59, 59, 255])"

definition line_color :: "jsnum \<Rightarrow> nat list" where
  "line_color r =
     (if jlt r (Fin (33 / 100)) then [46, 127, 255, 210]
      else if jlt r (Fin (66 / 100)) then [39, 209, 124, 210]
      else if jlt r (Fin (9 / 10)) then [255, 212, 77, 210]
      else [255, 59, 59, 220])"

definition marker_size :: "jsnum \<Rightarrow> jsnum" where
  "marker_size vehicles =
     jmax (Fin 22) (jmin (Fin 56) (jadd (Fin 14) (jmul (jsqrt (jmax vehicles (Fin 0))) (Fin 6))))"

record peak =
  pk_position :: "jsnum \<times> jsnum"
  pk_color :: "nat list"
  pk_size :: jsnum
  pk_icon :: string
  pk_value :: jsnum

record label =
  lb_position :: "jsnum \<times> jsnum"
  lb_text :: string

text \<open>\<^verbatim>\<open>for (const x of v)\<close>: arrays and strings are iterable, nothing else that JSON
  can produce is.\<close>

definition iter_items :: "jsval \<Rightarrow> error + jsval list" where
  "iter_items v =
     (case v of Arr xs \<Rightarrow> Inr xs | Str s \<Rightarrow> Inr (map (\<lambda>c. Str [c]) s) | _ \<Rightarrow> Inl TypeError)"

text \<open>One pass of the scanning loop of \<^verbatim>\<open>getPeakPoint\<close> over the pair
  \<^verbatim>\<open>(bestFeature, bestValue)\<close>.\<close>

definition feature_value :: "host \<Rightarrow> jsval \<Rightarrow> jsnum" where
  "feature_value h feature = to_number h (rd_prop (rd_prop feature ''properties'') ''value'')"

definition peak_step :: "host \<Rightarrow> jsval \<times> jsnum \<Rightarrow> jsval \<Rightarrow> jsval \<times> jsnum" where
  "peak_step h best feature =
     (if \<not> truthy feature \<or> \<not> truthy (rd_prop feature ''properties'') then best
      else (let val = feature_value h feature
            in if \<not> isFinite val then best
               else if jlt (snd best) val then (feature, val)
               else best))"


definition statsMin :: "jsval \<Rightarrow> jsnum" where
  "statsMin stats =
     (if truthy stats then (case rd_prop stats ''min'' of Num (Fin r) \<Rightarrow> Fin r | _ \<Rightarrow> Fin 0)
      else Fin 0)"

definition statsMax :: "jsval \<Rightarrow> jsnum" where
  "statsMax stats =
     (if truthy stats then (case rd_prop stats ''max'' of Num (Fin r) \<Rightarrow> Fin r | _ \<Rightarrow> Fin 1)
      else Fin 1)"

definition getPeakPoint :: "host \<Rightarrow> jsval \<Rightarrow> jsval \<Rightarrow> error + peak option" where
  "getPeakPoint h fc stats =
     (if \<not> truthy fc \<or> \<not> truthy (rd_prop fc ''features'')
         \<or> \<not> truthy (rd_prop (rd_prop fc ''features'') ''length'') then Inr None
      else case iter_items (rd_prop fc ''features'') of
        Inl e \<Rightarrow> Inl e
      | Inr fs \<Rightarrow>
         (let best = foldl (peak_step h) (Null, NInf) fs;
              bestFeature = fst best; bestValue = snd best
          in if \<not> truthy bestFeature \<or> \<not> truthy (rd_prop bestFeature ''geometry'')
                \<or> rd_prop (rd_prop bestFeature ''geometry'') ''type'' \<noteq> Str ''LineString''
             then Inr None
             else case getLineMiddlePoint h
                         (rd_prop (rd_prop bestFeature ''geometry'') ''coordinates'') of
               Inl e \<Rightarrow> Inl e
             | Inr None \<Rightarrow> Inr None
             | Inr (Some middle) \<Rightarrow>
                (let minValue = statsMin stats; maxValue = statsMax stats;
                     r = ratio h bestValue (Num minValue) (Num maxValue);
                     pv = rd_prop (rd_prop bestFeature ''properties'') ''vehicles'';
                     vehicles = to_number h (if truthy pv then pv else Num (Fin 0))
                 in Inr (Some \<lparr>pk_position = middle, pk_color = peak_color r,
                                pk_size = marker_size vehicles, pk_icon = ''marker'',
                                pk_value = bestValue\<rparr>))))"

text \<open>The \<^verbatim>\<open>getLineColor\<close> accessor of the traffic layer, over the stored stats.\<close>

definition getLineColor :: "host \<Rightarrow> jsval \<Rightarrow> jsval \<Rightarrow> error + nat list" where
  "getLineColor h currentStats feature =
     (if nullish feature then Inl TypeError
      else (let props = rd_prop feature ''properties'';
                pv = (if nullish props then Undefined else rd_prop props ''value'');
                val = to_number h (if nullish pv then Num (Fin 0) else pv)
            in Inr (line_color
                      (ratio h val (rd_prop currentStats ''min'') (rd_prop currentStats ''max'')))))"

fun labels_loop :: "host \<Rightarrow> jsval list \<Rightarrow> error + label list" where
  "labels_loop h [] = Inr []"
| "labels_loop h (feature # rest) =
     (if nullish feature then Inl TypeError
      else (let g = rd_prop feature ''geometry''
            in if \<not> truthy g \<or> rd_prop g ''type'' \<noteq> Str ''LineString'' then labels_loop h rest
               else case getLineMiddlePoint h (rd_prop g ''coordinates'') of
                 Inl e \<Rightarrow> Inl e
               | Inr None \<Rightarrow> labels_loop h rest
               | Inr (Some middle) \<Rightarrow>
                  (let p = rd_prop feature ''properties'';
                       val = to_number h (if truthy p then rd_prop p ''value'' else p);
                       labelText = (case val of Fin r \<Rightarrow> toFixed2 h r | _ \<Rightarrow> [])
                   in case labels_loop h rest of
                        Inl e \<Rightarrow> Inl e
                      | Inr ls \<Rightarrow> Inr (\<lparr>lb_position = middle, lb_text = labelText\<rparr> # ls))))"

definition buildValuesLabels :: "host \<Rightarrow> jsval \<Rightarrow> error + label list" where
  "buildValuesLabels h fc =
     (if \<not> truthy fc \<or> \<not> truthy (rd_prop fc ''features'') then Inr []
      else case iter_items (rd_prop fc ''features'') of
        Inl e \<Rightarrow> Inl e
      | Inr fs \<Rightarrow> labels_loop h fs)"

section \<open>Timeline and page state\<close>

text \<open>
  The state the script reads and writes: the two module variables \<^verbatim>\<open>timeMin\<close> and
  \<^verbatim>\<open>timeMax\<close> (both \<^verbatim>\<open>null\<close> until the metadata are loaded), the slider and
  the controls of the page, the legend labels, the stats stored with the layers and the
  data last given to each layer with \<^verbatim>\<open>setProps\<close>. \<open>requests\<close> records every
  traffic request issued. The slider's \<^verbatim>\<open>value\<close> and \<^verbatim>\<open>max\<close> are the integers
  that \<^verbatim>\<open>Number(slider.value)\<close> and \<^verbatim>\<open>Number(slider.max)\<close> read.
\<close>

record request =
  rq_fr :: jsnum
  rq_to :: jsnum
  rq_veh_class :: string
  rq_metric :: string

record page =
  timeMin :: jsval
  timeMax :: jsval
  slider_value :: int
  slider_max :: int
  chkTraffic :: bool
  chkValues :: bool
  classSelect :: string
  metricSelect :: string
  legendMin :: string
  legendMax :: string
  currentStats :: jsval
  trafficData :: jsval
  peakData :: "peak list"
  labelsData :: "label list"
  requests :: "request list"

text \<open>
  Modelled from the spec: the scrub slider element, whose markup is not part of the
  script, is "integer-valued, bounded \<open>[0,max]\<close>". An assignment to
  \<^verbatim>\<open>slider.value\<close> therefore stores the assigned integer brought into that range, as
  a range input does.
\<close>

definition set_slider_value :: "int \<Rightarrow> page \<Rightarrow> page" where
  "set_slider_value v s = s\<lparr>slider_value := max 0 (min (slider_max s) v)\<rparr>"

text \<open>The number held by a value already known to be a number.\<close>

fun the_num :: "jsval \<Rightarrow> jsnum" where
  "the_num (Num n) = n"
| "the_num v = NaN"

definition getSliderEpoch :: "page \<Rightarrow> jsnum option" where
  "getSliderEpoch s =
     (if \<not> isFiniteV (timeMin s) \<or> \<not> isFiniteV (timeMax s) then None
      else (let position = jdiv (Fin (of_int (slider_value s))) (Fin (of_int (slider_max s)));
                epoch = jadd (the_num (timeMin s))
                          (jmul position (jsub (the_num (timeMax s)) (the_num (timeMin s))))
            in Some (jround epoch)))"

definition getWindowFromEpoch :: "jsnum \<Rightarrow> jsnum \<Rightarrow> jsnum \<times> jsnum" where
  "getWindowFromEpoch centerEpoch minutesRange =
     (let seconds = jmul minutesRange (Fin 60)
      in (jsub centerEpoch seconds, jadd centerEpoch seconds))"

definition defaultStats :: jsval where
  "defaultStats = Obj [(''min'', Num (Fin 0)), (''max'', Num (Fin 1))]"

definition legendText :: "host \<Rightarrow> jsval \<Rightarrow> string \<Rightarrow> string" where
  "legendText h v placeholder = (case v of Num (Fin r) \<Rightarrow> toFixed2 h r | _ \<Rightarrow> placeholder)"

text \<open>
  \<^verbatim>\<open>loadTrafficForCurrentSlider(layers)\<close>, one refresh. \<open>fetchJson\<close> answers a
  request with the parsed JSON value or rejects. The result is the page after the
  refresh and, when the function throws (its promise rejects), the error; the writes made
  before the throw stay. The refresh is taken as one step: what other handlers do while
  the request is in flight is not part of it.
\<close>

definition loadTrafficForCurrentSlider ::
    "host \<Rightarrow> (request \<Rightarrow> error + jsval) \<Rightarrow> page \<Rightarrow> page \<times> error option" where
  "loadTrafficForCurrentSlider h fetchJson s =
     (if \<not> chkTraffic s then (s, None)
      else case getSliderEpoch s of
        None \<Rightarrow> (s, None)
      | Some epoch \<Rightarrow>
         (let w = getWindowFromEpoch epoch (Fin 5);
              req = \<lparr>rq_fr = fst w, rq_to = snd w,
                     rq_veh_class = classSelect s, rq_metric = metricSelect s\<rparr>;
              s1 = s\<lparr>requests := requests s @ [req]\<rparr>
          in case fetchJson req of
               Inl e \<Rightarrow> (s1, Some e)
             | Inr response \<Rightarrow>
                (let featureCollection = normalizeFeatureCollection response
                 in case get_prop response ''stats'' of
                      Inl e \<Rightarrow> (s1, Some e)
                    | Inr st \<Rightarrow>
                       (let stats = (if truthy st then st else defaultStats);
                            s2 = s1\<lparr>currentStats := stats,
                                    legendMin := legendText h (rd_prop stats ''min'') ''min'',
                                    legendMax := legendText h (rd_prop stats ''max'') ''max'',
                                    trafficData := featureCollection\<rparr>
                        in case getPeakPoint h featureCollection stats of
                             Inl e \<Rightarrow> (s2, Some e)
                           | Inr pk \<Rightarrow>
                              (let s3 = s2\<lparr>peakData := (case pk of Some p \<Rightarrow> [p] | None \<Rightarrow> [])\<rparr>
                               in if chkValues s
                                  then (case buildValuesLabels h featureCollection of
                                          Inl e \<Rightarrow> (s3, Some e)
                                        | Inr labels \<Rightarrow> (s3\<lparr>labelsData := labels\<rparr>, None))
                                  else (s3\<lparr>labelsData := []\<rparr>, None))))))"

text \<open>
  The click handlers of the previous and next buttons and the body of the playback
  interval. Each writes the slider and then refreshes; the repainting of the slider fill
  and of the time label, which only format what is shown, is left out.
\<close>

definition btnPrev_click ::
    "host \<Rightarrow> (request \<Rightarrow> error + jsval) \<Rightarrow> page \<Rightarrow> page \<times> error option" where
  "btnPrev_click h fetchJson s =
     (if \<not> chkTraffic s then (s, None)
      else (let current = slider_value s
            in loadTrafficForCurrentSlider h fetchJson
                 (set_slider_value (max 0 (current - 20)) s)))"

definition btnNext_click ::
    "host \<Rightarrow> (request \<Rightarrow> error + jsval) \<Rightarrow> page \<Rightarrow> page \<times> error option" where
  "btnNext_click h fetchJson s =
     (if \<not> chkTraffic s then (s, None)
      else (let current = slider_value s; mx = slider_max s
            in loadTrafficForCurrentSlider h fetchJson
                 (set_slider_value (min mx (current + 20)) s)))"

definition play_tick ::
    "host \<Rightarrow> (request \<Rightarrow> error + jsval) \<Rightarrow> page \<Rightarrow> page \<times> error option" where
  "play_tick h fetchJson s =
     (let current = slider_value s; mx = slider_max s
      in loadTrafficForCurrentSlider h fetchJson
           (set_slider_value (if current \<ge> mx then 0 else current + 2) s))"

section \<open>Example inputs\<close>

text \<open>A host for inputs that hold no text to convert and no date to parse, and whose
  results need no rounding.\<close>

definition plain_host :: host where
  "plain_host = \<lparr>str_to_num = (\<lambda>s. NaN), num_to_str = (\<lambda>n. []), date_time = (\<lambda>v. NaN),
                  round_double = (\<lambda>x. x)\<rparr>"

text \<open>The page before the metadata are loaded, and once a time range is known.\<close>

definition page_unloaded :: page where
  "page_unloaded =
     \<lparr>timeMin = Null, timeMax = Null, slider_value = 500, slider_max = 1000,
      chkTraffic = True, chkValues = True, classSelect = ''all'', metricSelect = ''count'',
      legendMin = ''min'', legendMax = ''max'', currentStats = defaultStats,
      trafficData = emptyFeatureCollection, peakData = [], labelsData = [], requests = []\<rparr>"

definition page_loaded :: page where
  "page_loaded = page_unloaded\<lparr>timeMin := Num (Fin 1000), timeMax := Num (Fin 2000)\<rparr>"

text \<open>A line feature with a given \<^verbatim>\<open>value\<close> and coordinates, two roads, and a
  traffic response.\<close>

definition line_feature :: "jsval \<Rightarrow> jsval \<Rightarrow> jsval" where
  "line_feature v coords =
     Obj [(''type'', Str ''Feature''),
          (''properties'', Obj [(''value'', v), (''vehicles'', Num (Fin 9))]),
          (''geometry'', Obj [(''type'', Str ''LineString''), (''coordinates'', coords)])]"

definition road_a :: jsval where
  "road_a = Arr [Arr [Num (Fin 0), Num (Fin 0)], Arr [Num (Fin 4), Num (Fin 2)],
                 Arr [Num (Fin 10), Num (Fin 10)]]"

definition road_b :: jsval where
  "road_b = Arr [Arr [Num (Fin 2), Num (Fin 2)], Arr [Num (Fin 4), Num (Fin 8)]]"

definition response_of :: "jsval list \<Rightarrow> jsval \<Rightarrow> jsval" where
  "response_of fs st =
     Obj [(''type'', Str ''FeatureCollection''), (''features'', Arr fs), (''stats'', st)]"

section \<open>Properties\<close>

subsection \<open>Time codec\<close>

text \<open>
  Claim C7. \<^verbatim>\<open>toEpochSeconds\<close> returns a number \<open>t < 1e10\<close> unchanged, returns
  \<open>floor(t/1000)\<close> for every other number, so for \<open>t \<ge> 1e10\<close>, and returns NaN,
  which is not finite, for every string whose date has no finite time value.
\<close>

theorem toEpochSeconds_cases:
  "(jlt t (Fin 10000000000) \<longrightarrow> toEpochSeconds h (Num t) = t)
   \<and> (\<not> jlt t (Fin 10000000000) \<longrightarrow>
        toEpochSeconds h (Num t) = jfloor (jdiv t (Fin 1000)))
   \<and> (10000000000 \<le> r \<longrightarrow> toEpochSeconds h (Num (Fin r)) = Fin (of_int \<lfloor>r / 1000\<rfloor>))
   \<and> (\<not> isFinite (date_time h (Str s)) \<longrightarrow>
        toEpochSeconds h (Str s) = NaN \<and> \<not> isFinite (toEpochSeconds h (Str s)))"
  by (simp add: toEpochSeconds_def)

theorem toEpochSeconds_cases_witness:
  "jlt (Fin 1700000000) (Fin 10000000000)
   \<and> toEpochSeconds plain_host (Num (Fin 1700000000)) = Fin 1700000000
   \<and> (10000000000::real) \<le> 1700000000123
   \<and> toEpochSeconds plain_host (Num (Fin 1700000000123)) = Fin 1700000000
   \<and> \<not> jlt PInf (Fin 10000000000)
   \<and> toEpochSeconds plain_host (Num PInf) = PInf
   \<and> \<not> isFinite (date_time plain_host (Str ''soon''))
   \<and> toEpochSeconds plain_host (Str ''soon'') = NaN"
  using toEpochSeconds_cases [where t = "Fin 1700000000" and r = 1700000000123 and h = plain_host
          and s = "''soon''"]
        toEpochSeconds_cases [where t = PInf and h = plain_host]
  by (simp add: plain_host_def inf_of_sign_def)

subsection \<open>Normalisation of responses\<close>

lemma isFeatureCollection_Obj:
  "isFeatureCollection fc \<Longrightarrow>
     \<exists>kvs fs. fc = Obj kvs \<and> map_of kvs ''type'' = Some (Str ''FeatureCollection'')
       \<and> map_of kvs ''features'' = Some (Arr fs)"
  by (cases fc)
     (auto simp: isFeatureCollection_def split: option.splits if_splits elim: isArray.elims)

lemma isFeatureCollection_normalize: "isFeatureCollection (normalizeFeatureCollection fc)"
  by (simp add: normalizeFeatureCollection_def isFeatureCollection_def
        emptyFeatureCollection_def)

text \<open>
  Claim C10. For every input the result of \<^verbatim>\<open>normalizeFeatureCollection\<close> is an object
  whose \<^verbatim>\<open>type\<close> is \<^verbatim>\<open>'FeatureCollection'\<close> and whose \<^verbatim>\<open>features\<close> is an
  array; a well-formed input is returned unchanged; normalising a result returns it
  unchanged.
\<close>

theorem normalizeFeatureCollection_idempotent:
  "(\<exists>kvs fs. normalizeFeatureCollection fc = Obj kvs
        \<and> map_of kvs ''type'' = Some (Str ''FeatureCollection'')
        \<and> map_of kvs ''features'' = Some (Arr fs))
   \<and> (isFeatureCollection fc \<longrightarrow> normalizeFeatureCollection fc = fc)
   \<and> normalizeFeatureCollection (normalizeFeatureCollection fc) = normalizeFeatureCollection fc"
  using isFeatureCollection_Obj [OF isFeatureCollection_normalize [of fc]]
        isFeatureCollection_normalize [of fc]
  by (simp add: normalizeFeatureCollection_def)

theorem normalizeFeatureCollection_idempotent_witness:
  "isFeatureCollection (Obj [(''type'', Str ''FeatureCollection''), (''features'', Arr [Null]),
                             (''stats'', Null)])
   \<and> normalizeFeatureCollection (Obj [(''type'', Str ''FeatureCollection''),
                                      (''features'', Arr [Null]), (''stats'', Null)])
       = Obj [(''type'', Str ''FeatureCollection''), (''features'', Arr [Null]), (''stats'', Null)]
   \<and> normalizeFeatureCollection (normalizeFeatureCollection (Str ''oops''))
       = normalizeFeatureCollection (Str ''oops'')"
  using normalizeFeatureCollection_idempotent
          [of "Obj [(''type'', Str ''FeatureCollection''), (''features'', Arr [Null]),
                    (''stats'', Null)]"]
        normalizeFeatureCollection_idempotent [of "Str ''oops''"]
  by (simp add: isFeatureCollection_def)

subsection \<open>Geometry\<close>

text \<open>
  Claim C8. For a coordinate sequence of at least two points, whose first and last points
  are arrays starting with two finite numbers, \<^verbatim>\<open>getLineMiddlePoint\<close> returns the
  arithmetic midpoint of the first and the last point, whatever lies between them; for an
  input that is not an array of length at least two it returns null.
\<close>

theorem getLineMiddlePoint_endpoints:
  "(2 \<le> length ps \<and> hd ps = Arr (Num (Fin xa) # Num (Fin ya) # ra)
      \<and> last ps = Arr (Num (Fin xb) # Num (Fin yb) # rb) \<longrightarrow>
      getLineMiddlePoint h (Arr ps) = Inr (Some (Fin ((xa + xb) / 2), Fin ((ya + yb) / 2))))
   \<and> ((\<forall>qs. coords = Arr qs \<longrightarrow> length qs < 2) \<longrightarrow> getLineMiddlePoint h coords = Inr None)"
proof (intro conjI impI)
  assume a: "2 \<le> length ps \<and> hd ps = Arr (Num (Fin xa) # Num (Fin ya) # ra)
      \<and> last ps = Arr (Num (Fin xb) # Num (Fin yb) # rb)"
  then have ne: "ps \<noteq> []" by auto
  have f: "ps ! 0 = Arr (Num (Fin xa) # Num (Fin ya) # ra)"
    using a ne by (simp add: hd_conv_nth)
  have l: "ps ! (length ps - 1) = Arr (Num (Fin xb) # Num (Fin yb) # rb)"
    using a ne by (simp add: last_conv_nth)
  show "getLineMiddlePoint h (Arr ps) = Inr (Some (Fin ((xa + xb) / 2), Fin ((ya + yb) / 2)))"
    using a f l by (simp add: getLineMiddlePoint_def half_sum_def js_add_def)
next
  assume "\<forall>qs. coords = Arr qs \<longrightarrow> length qs < 2"
  then show "getLineMiddlePoint h coords = Inr None"
    by (cases coords) (simp_all add: getLineMiddlePoint_def)
qed

theorem getLineMiddlePoint_endpoints_witness:
  "getLineMiddlePoint plain_host
      (Arr [Arr [Num (Fin 0), Num (Fin 0)], Arr [Num (Fin 4), Num (Fin 2)],
            Arr [Num (Fin 10), Num (Fin 10)]]) = Inr (Some (Fin 5, Fin 5))
   \<and> getLineMiddlePoint plain_host (Arr [Arr [Num (Fin 0), Num (Fin 0)]]) = Inr None
   \<and> getLineMiddlePoint plain_host (Str ''line'') = Inr None"
  using getLineMiddlePoint_endpoints
          [where ps = "[Arr [Num (Fin 0), Num (Fin 0)], Arr [Num (Fin 4), Num (Fin 2)],
                        Arr [Num (Fin 10), Num (Fin 10)]]"
             and xa = 0 and ya = 0 and ra = "[]" and xb = 10 and yb = 10 and rb = "[]"
             and h = plain_host and coords = "Arr [Arr [Num (Fin 0), Num (Fin 0)]]"]
        getLineMiddlePoint_endpoints [where h = plain_host and coords = "Str ''line''"]
  by simp

subsection \<open>Refresh without a time range\<close>

text \<open>
  Claim C6. When \<^verbatim>\<open>timeMin\<close> and \<^verbatim>\<open>timeMax\<close> are not both finite numbers,
  \<^verbatim>\<open>getSliderEpoch\<close> returns null and a refresh does nothing: it does not throw, it
  issues no request and it leaves the page, with its layer data and legend labels, as it
  was.
\<close>

theorem refresh_noop_without_time_range:
  "\<not> (isFiniteV (timeMin s) \<and> isFiniteV (timeMax s)) \<Longrightarrow>
     getSliderEpoch s = None \<and> loadTrafficForCurrentSlider h fetchJson s = (s, None)"
  by (auto simp: getSliderEpoch_def loadTrafficForCurrentSlider_def)

theorem refresh_noop_without_time_range_witness:
  "\<not> (isFiniteV (timeMin page_unloaded) \<and> isFiniteV (timeMax page_unloaded))
   \<and> getSliderEpoch page_unloaded = None
   \<and> loadTrafficForCurrentSlider plain_host (\<lambda>rq. Inr emptyFeatureCollection) page_unloaded
       = (page_unloaded, None)"
proof -
  have t: "\<not> (isFiniteV (timeMin page_unloaded) \<and> isFiniteV (timeMax page_unloaded))"
    by (simp add: page_unloaded_def)
  show ?thesis
    using t refresh_noop_without_time_range
              [OF t, of plain_host "\<lambda>rq. Inr emptyFeatureCollection"]
    by simp
qed

subsection \<open>Value encoding\<close>

lemma jmin_Fin: "jmin (Fin x) (Fin y) = Fin (min x y)"
  by (simp add: jmin_def min_def)

lemma jmax_Fin: "jmax (Fin x) (Fin y) = Fin (max x y)"
  by (simp add: jmax_def max_def)

lemma clamp_cases:
  "jmax (Fin 0) (jmin (Fin 1) NaN) = NaN"
  "jmax (Fin 0) (jmin (Fin 1) PInf) = Fin 1"
  "jmax (Fin 0) (jmin (Fin 1) NInf) = Fin 0"
  "jmax (Fin 0) (jmin (Fin 1) (Fin x)) = Fin (max 0 (min 1 x))"
  by (simp_all add: jmax_def jmin_def max_def min_def)

lemma clamp_range:
  "jmax (Fin 0) (jmin (Fin 1) r) = NaN
   \<or> (\<exists>x. jmax (Fin 0) (jmin (Fin 1) r) = Fin x \<and> 0 \<le> x \<and> x \<le> 1)"
  by (cases r) (simp_all add: clamp_cases)

lemma ratio_range:
  "ratio h val mn mx = NaN \<or> (\<exists>x. ratio h val mn mx = Fin x \<and> 0 \<le> x \<and> x \<le> 1)"
  by (simp add: ratio_def Let_def clamp_range)

lemma overflow_bound_pos: "0 < overflow_bound"
  by (simp add: overflow_bound_def)

lemma overflow_bound_large: "1000000 < overflow_bound"
  by (simp add: overflow_bound_def)

lemma to_double_plain: "\<bar>x\<bar> \<le> 1000000 \<Longrightarrow> to_double plain_host x = Fin x"
proof -
  assume "\<bar>x\<bar> \<le> 1000000"
  then have "\<not> overflow_bound \<le> x" "\<not> x \<le> - overflow_bound"
    using overflow_bound_large by linarith+
  then show ?thesis by (simp add: to_double_def plain_host_def)
qed

lemma to_double_range:
  "\<exists>p. jmax (Fin 0) (jmin (Fin 1) (to_double h x)) = Fin p \<and> 0 \<le> p \<and> p \<le> 1"
  by (simp add: to_double_def clamp_cases)

lemma to_double_mono:
  assumes "\<forall>x y. x \<le> y \<longrightarrow> round_double h x \<le> round_double h y" and "x \<le> y"
  shows "\<exists>p q. jmax (Fin 0) (jmin (Fin 1) (to_double h x)) = Fin p
           \<and> jmax (Fin 0) (jmin (Fin 1) (to_double h y)) = Fin q \<and> p \<le> q"
proof -
  have r: "round_double h x \<le> round_double h y" using assms by blast
  have m: "max 0 (min 1 (round_double h x)) \<le> max 0 (min 1 (round_double h y))"
    using r by (auto simp: max_def min_def)
  show ?thesis
    using assms(2) overflow_bound_pos m by (auto simp: to_double_def clamp_cases)
qed

text \<open>The clamped quotient by a positive finite divisor, as a function of the exact
  numerator before its rounding.\<close>

lemma quotient_range:
  "0 < d \<Longrightarrow>
     \<exists>p. jmax (Fin 0) (jmin (Fin 1) (ddiv h (to_double h x) (Fin d))) = Fin p
         \<and> 0 \<le> p \<and> p \<le> 1"
  using to_double_range [of h "round_double h x / d"]
  by (auto simp: ddiv_def to_double_def [of h x] inf_of_sign_def clamp_cases)

lemma quotient_mono:
  assumes mono: "\<forall>x y. x \<le> y \<longrightarrow> round_double h x \<le> round_double h y"
    and d: "0 < d" and xy: "x \<le> y"
  shows "\<exists>p q. jmax (Fin 0) (jmin (Fin 1) (ddiv h (to_double h x) (Fin d))) = Fin p
           \<and> jmax (Fin 0) (jmin (Fin 1) (ddiv h (to_double h y) (Fin d))) = Fin q \<and> p \<le> q"
proof -
  obtain p where p: "jmax (Fin 0) (jmin (Fin 1) (ddiv h (to_double h x) (Fin d))) = Fin p"
    "0 \<le> p" "p \<le> 1" using quotient_range [OF d] by blast
  obtain q where q: "jmax (Fin 0) (jmin (Fin 1) (ddiv h (to_double h y) (Fin d))) = Fin q"
    "0 \<le> q" "q \<le> 1" using quotient_range [OF d] by blast
  consider (hi) "overflow_bound \<le> y" | (lo) "x \<le> - overflow_bound"
    | (mid) "\<not> overflow_bound \<le> y" "\<not> x \<le> - overflow_bound" by blast
  then have "p \<le> q"
  proof cases
    case hi
    then have "q = 1" using q(1) d
      by (simp add: ddiv_def to_double_def inf_of_sign_def clamp_cases)
    then show ?thesis using p(3) by simp
  next
    case lo
    then have "p = 0" using p(1) d overflow_bound_pos
      by (simp add: ddiv_def to_double_def inf_of_sign_def clamp_cases)
    then show ?thesis using q(2) by simp
  next
    case mid
    then have fx: "to_double h x = Fin (round_double h x)"
      and fy: "to_double h y = Fin (round_double h y)"
      using xy by (simp_all add: to_double_def)
    have "round_double h x \<le> round_double h y" using mono xy by blast
    then have "round_double h x / d \<le> round_double h y / d"
      using d by (simp add: divide_right_mono)
    from to_double_mono [OF mono this] show ?thesis
      using p(1) q(1) d by (simp add: ddiv_def fx fy)
  qed
  then show ?thesis using p(1) q(1) by blast
qed

lemma divisor_finite:
  assumes "double_rounding h" "round_double h a = a" "round_double h b = b" "a < b"
    and "b - a < overflow_bound"
  shows "ratio_divisor h (Num (Fin a)) (Num (Fin b)) = Fin (round_double h (b - a))"
    and "0 < round_double h (b - a)"
proof -
  show "0 < round_double h (b - a)" using assms(1-4) by (simp add: double_rounding_def)
  have "\<not> b - a \<le> - overflow_bound" using assms(4) overflow_bound_pos by linarith
  then show "ratio_divisor h (Num (Fin a)) (Num (Fin b)) = Fin (round_double h (b - a))"
    using assms(5) by (simp add: ratio_divisor_def dsub_def jsub_def to_double_def)
qed

lemma ratio_as_quotient:
  assumes "double_rounding h" "round_double h a = a" "round_double h b = b" "a < b"
    and "b - a < overflow_bound"
  shows "ratio h (Fin v) (Num (Fin a)) (Num (Fin b))
           = jmax (Fin 0) (jmin (Fin 1)
               (ddiv h (to_double h (v - a)) (Fin (round_double h (b - a)))))"
  using assms(4) divisor_finite(1) [OF assms]
  by (simp add: ratio_def ratio_guard_def js_gt_def dsub_def jsub_def Let_def)

lemma ratio_not_finite: "\<not> isFinite val \<Longrightarrow> ratio h val mn mx = Fin 0"
  by (simp add: ratio_def ratio_guard_def jmax_Fin jmin_Fin)

lemma ratio_degenerate: "b \<le> a \<Longrightarrow> ratio h val (Num (Fin a)) (Num (Fin b)) = Fin 0"
  by (simp add: ratio_def ratio_guard_def js_gt_def jmax_Fin jmin_Fin)

lemma ratio_divisor_overflow:
  assumes "double_rounding h" "a < b" "overflow_bound \<le> b - a"
  shows "ratio h (Fin v) (Num (Fin a)) (Num (Fin b))
           = (if overflow_bound \<le> \<bar>v - a\<bar> then NaN else Fin 0)"
proof -
  have z: "round_double h 0 = 0" using assms(1) by (simp add: double_rounding_def)
  have d: "ratio_divisor h (Num (Fin a)) (Num (Fin b)) = PInf"
    using assms(3) by (simp add: ratio_divisor_def dsub_def jsub_def to_double_def)
  have g: "ratio_guard h (Fin v) (Num (Fin a)) (Num (Fin b))"
    using assms(2) by (simp add: ratio_guard_def js_gt_def)
  have n: "dsub h (Fin v) (Fin a) = to_double h (v - a)" by (simp add: dsub_def jsub_def)
  show ?thesis
  proof (cases "overflow_bound \<le> \<bar>v - a\<bar>")
    case True
    then have "to_double h (v - a) = PInf \<or> to_double h (v - a) = NInf"
      using overflow_bound_pos by (auto simp: to_double_def abs_if split: if_splits)
    then show ?thesis using True d g n
      by (auto simp: ratio_def Let_def ddiv_def clamp_cases)
  next
    case False
    then have "to_double h (v - a) = Fin (round_double h (v - a))"
      by (auto simp: to_double_def abs_if split: if_splits)
    then show ?thesis using False d g n z overflow_bound_pos
      by (simp add: ratio_def Let_def ddiv_def to_double_def clamp_cases)
  qed
qed

lemma ratio_divisor_nonzero:
  assumes "double_rounding h" "round_double h a = a" "round_double h b = b"
    and "ratio_guard h val (Num (Fin a)) (Num (Fin b))"
  shows "ratio_divisor h (Num (Fin a)) (Num (Fin b)) \<noteq> Fin 0"
proof -
  have ab: "a < b" using assms(4) by (simp add: ratio_guard_def js_gt_def)
  then have "0 < round_double h (b - a)" using assms(1-3) by (simp add: double_rounding_def)
  then show ?thesis
    by (simp add: ratio_divisor_def dsub_def jsub_def to_double_def)
qed



lemma stats_bounds_finite: "\<exists>c d. statsMin stats = Fin c \<and> statsMax stats = Fin d"
  by (auto simp: statsMin_def statsMax_def split: jsval.splits jsnum.splits)

lemma double_rounding_plain: "double_rounding plain_host"
  by (simp add: double_rounding_def plain_host_def)

lemma ratio_plain:
  assumes "a < b" "\<bar>v - a\<bar> \<le> 1000000" "\<bar>b - a\<bar> \<le> 1000000"
    and "\<bar>(v - a) / (b - a)\<bar> \<le> 1000000"
  shows "ratio plain_host (Fin v) (Num (Fin a)) (Num (Fin b))
           = Fin (max 0 (min 1 ((v - a) / (b - a))))"
  using assms
  by (simp add: ratio_def ratio_guard_def ratio_divisor_def js_gt_def dsub_def ddiv_def
        jsub_def to_double_plain clamp_cases Let_def)

text \<open>
  Claim C2, as amended. For stats whose \<^verbatim>\<open>min\<close> and \<^verbatim>\<open>max\<close> are finite doubles
  with \<open>max > min\<close>, the ratio is the clamp of the quotient computed in doubles. When
  \<open>max - min\<close> does not overflow, the ratio lies in \<open>[0,1]\<close> for every value and does
  not decrease when the value grows. When \<open>max - min\<close> overflows to infinity, the ratio is
  0, or NaN if \<open>value - min\<close> overflows too; it is never a number outside \<open>[0,1]\<close>. With
  \<open>max \<le> min\<close>, or with a value that is not finite, the ratio is 0. The division is
  only made under the guard, and then its divisor is not zero. The peak builder always
  supplies finite bounds.
\<close>

theorem ratio_bounds:
  "double_rounding h \<and> round_double h a = a \<and> round_double h b = b \<Longrightarrow>
     (ratio h val (Num (Fin a)) (Num (Fin b)) = NaN
        \<or> (\<exists>x. ratio h val (Num (Fin a)) (Num (Fin b)) = Fin x \<and> 0 \<le> x \<and> x \<le> 1))
   \<and> (a < b \<and> b - a < overflow_bound \<longrightarrow>
        (\<exists>x. ratio h val (Num (Fin a)) (Num (Fin b)) = Fin x \<and> 0 \<le> x \<and> x \<le> 1))
   \<and> (a < b \<and> b - a < overflow_bound \<and> v \<le> w \<longrightarrow>
        (\<exists>x y. ratio h (Fin v) (Num (Fin a)) (Num (Fin b)) = Fin x
             \<and> ratio h (Fin w) (Num (Fin a)) (Num (Fin b)) = Fin y \<and> x \<le> y))
   \<and> (a < b \<and> overflow_bound \<le> b - a \<longrightarrow>
        ratio h (Fin v) (Num (Fin a)) (Num (Fin b))
          = (if overflow_bound \<le> \<bar>v - a\<bar> then NaN else Fin 0))
   \<and> (b \<le> a \<longrightarrow> ratio h val (Num (Fin a)) (Num (Fin b)) = Fin 0)
   \<and> (\<not> isFinite val \<longrightarrow> ratio h val mn mx = Fin 0)
   \<and> (ratio_guard h val (Num (Fin a)) (Num (Fin b)) \<longrightarrow>
        ratio_divisor h (Num (Fin a)) (Num (Fin b)) \<noteq> Fin 0)
   \<and> (\<exists>c d. statsMin stats = Fin c \<and> statsMax stats = Fin d)"
proof (intro conjI impI)
  assume h: "double_rounding h \<and> round_double h a = a \<and> round_double h b = b"
  then have dr: "double_rounding h" and ra: "round_double h a = a"
    and rb: "round_double h b = b" by simp_all
  from dr have mono: "\<forall>x y. x \<le> y \<longrightarrow> round_double h x \<le> round_double h y"
    by (simp add: double_rounding_def)
  show "ratio h val (Num (Fin a)) (Num (Fin b)) = NaN
        \<or> (\<exists>x. ratio h val (Num (Fin a)) (Num (Fin b)) = Fin x \<and> 0 \<le> x \<and> x \<le> 1)"
    by (rule ratio_range)
  {
    assume c: "a < b \<and> b - a < overflow_bound"
    then have ab: "a < b" and nov: "b - a < overflow_bound" by simp_all
    note q = ratio_as_quotient [OF dr ra rb ab nov]
    note d = divisor_finite(2) [OF dr ra rb ab nov]
    show "\<exists>x. ratio h val (Num (Fin a)) (Num (Fin b)) = Fin x \<and> 0 \<le> x \<and> x \<le> 1"
    proof (cases val)
      case (Fin u)
      then show ?thesis using quotient_range [OF d, of h "u - a"] by (simp add: q)
    qed (simp_all add: ratio_not_finite)
  }
  {
    assume c: "a < b \<and> b - a < overflow_bound \<and> v \<le> w"
    then have ab: "a < b" and nov: "b - a < overflow_bound" and vw: "v - a \<le> w - a"
      by simp_all
    note q = ratio_as_quotient [OF dr ra rb ab nov]
    note d = divisor_finite(2) [OF dr ra rb ab nov]
    show "\<exists>x y. ratio h (Fin v) (Num (Fin a)) (Num (Fin b)) = Fin x
             \<and> ratio h (Fin w) (Num (Fin a)) (Num (Fin b)) = Fin y \<and> x \<le> y"
      using quotient_mono [OF mono d vw] by (simp add: q)
  }
  {
    assume "a < b \<and> overflow_bound \<le> b - a"
    then show "ratio h (Fin v) (Num (Fin a)) (Num (Fin b))
                 = (if overflow_bound \<le> \<bar>v - a\<bar> then NaN else Fin 0)"
      using ratio_divisor_overflow [OF dr] by blast
  }
  {
    assume "b \<le> a"
    then show "ratio h val (Num (Fin a)) (Num (Fin b)) = Fin 0" by (rule ratio_degenerate)
  }
  {
    assume "\<not> isFinite val"
    then show "ratio h val mn mx = Fin 0" by (rule ratio_not_finite)
  }
  {
    assume "ratio_guard h val (Num (Fin a)) (Num (Fin b))"
    then show "ratio_divisor h (Num (Fin a)) (Num (Fin b)) \<noteq> Fin 0"
      using ratio_divisor_nonzero [OF dr ra rb] by blast
  }
  show "\<exists>c d. statsMin stats = Fin c \<and> statsMax stats = Fin d" by (rule stats_bounds_finite)
qed

theorem ratio_bounds_witness:
  "double_rounding plain_host \<and> round_double plain_host 0 = 0
   \<and> round_double plain_host 8 = 8
   \<and> (0::real) < 8 \<and> (8 - 0 :: real) < overflow_bound \<and> (2::real) \<le> 6
   \<and> ratio plain_host (Fin 2) (Num (Fin 0)) (Num (Fin 8)) = Fin (1 / 4)
   \<and> ratio plain_host (Fin 6) (Num (Fin 0)) (Num (Fin 8)) = Fin (3 / 4)
   \<and> ratio plain_host (Fin 24) (Num (Fin 0)) (Num (Fin 8)) = Fin 1
   \<and> (8::real) \<le> 8
   \<and> ratio plain_host (Fin 6) (Num (Fin 8)) (Num (Fin 8)) = Fin 0
   \<and> \<not> isFinite PInf
   \<and> ratio plain_host PInf (Num (Fin 0)) (Num (Fin 8)) = Fin 0
   \<and> ratio_guard plain_host (Fin 6) (Num (Fin 0)) (Num (Fin 8))
   \<and> ratio_divisor plain_host (Num (Fin 0)) (Num (Fin 8)) \<noteq> Fin 0
   \<and> round_double plain_host (- (2 ^ 1023)) = - (2 ^ 1023)
   \<and> round_double plain_host (2 ^ 1023) = 2 ^ 1023
   \<and> (- (2 ^ 1023) :: real) < 2 ^ 1023
   \<and> overflow_bound \<le> 2 ^ 1023 - (- (2 ^ 1023))
   \<and> ratio plain_host (Fin 0) (Num (Fin (- (2 ^ 1023)))) (Num (Fin (2 ^ 1023))) = Fin 0"
proof -
  have h1: "double_rounding plain_host \<and> round_double plain_host 0 = 0
            \<and> round_double plain_host 8 = 8"
    using double_rounding_plain by (simp add: plain_host_def)
  have h2: "double_rounding plain_host \<and> round_double plain_host 8 = 8
            \<and> round_double plain_host 8 = 8"
    using double_rounding_plain by (simp add: plain_host_def)
  have h3: "double_rounding plain_host
            \<and> round_double plain_host (- (2 ^ 1023)) = - (2 ^ 1023)
            \<and> round_double plain_host (2 ^ 1023) = 2 ^ 1023"
    using double_rounding_plain by (simp add: plain_host_def)
  have b1: "(8 - 0 :: real) < overflow_bound" using overflow_bound_large by simp
  have b2: "overflow_bound \<le> 2 ^ 1023 - (- (2 ^ 1023))" "\<not> overflow_bound \<le> 2 ^ 1023"
    by (simp_all add: overflow_bound_def)
  have g: "ratio_guard plain_host (Fin 6) (Num (Fin 0)) (Num (Fin 8))"
    by (simp add: ratio_guard_def js_gt_def)
  have r: "ratio plain_host (Fin 2) (Num (Fin 0)) (Num (Fin 8)) = Fin (1 / 4)"
    "ratio plain_host (Fin 6) (Num (Fin 0)) (Num (Fin 8)) = Fin (3 / 4)"
    "ratio plain_host (Fin 24) (Num (Fin 0)) (Num (Fin 8)) = Fin 1"
    by (simp_all add: ratio_plain)
  note t1 = ratio_bounds [OF h1, where v = 2 and w = 6 and val = "Fin 6"]
  note t2 = ratio_bounds [OF h2, where val = "Fin 6"]
  note t3 = ratio_bounds [OF h1, where val = PInf and mn = "Num (Fin 0)" and mx = "Num (Fin 8)"]
  note t4 = ratio_bounds [OF h3, where v = 0]
  have d: "ratio_divisor plain_host (Num (Fin 0)) (Num (Fin 8)) \<noteq> Fin 0"
    using t1 g by blast
  have e: "ratio plain_host (Fin 6) (Num (Fin 8)) (Num (Fin 8)) = Fin 0"
    using t2 by simp
  have i: "ratio plain_host PInf (Num (Fin 0)) (Num (Fin 8)) = Fin 0"
    using t3 by simp
  have lt: "(- (2 ^ 1023) :: real) < 2 ^ 1023" by simp
  have b3: "\<not> overflow_bound \<le> \<bar>0 - (- (2 ^ 1023))\<bar>"
    by (simp add: overflow_bound_def)
  have "ratio plain_host (Fin 0) (Num (Fin (- (2 ^ 1023)))) (Num (Fin (2 ^ 1023)))
          = (if overflow_bound \<le> \<bar>0 - (- (2 ^ 1023))\<bar> then NaN else Fin 0)"
    using t4 lt b2(1) by blast
  then have o: "ratio plain_host (Fin 0) (Num (Fin (- (2 ^ 1023)))) (Num (Fin (2 ^ 1023)))
                  = Fin 0"
    using b3 by (simp only: if_False)
  have x: "(0::real) < 8" "(2::real) \<le> 6" "(8::real) \<le> 8" "\<not> isFinite PInf"
    by simp_all
  show ?thesis
    using h1 h3 b1 b2(1) g r d e i o x lt by blast
qed

text \<open>
  Claim C2 as stated fails for finite stats with \<open>max > min\<close>: with
  \<^verbatim>\<open>min = -1e308\<close>, \<^verbatim>\<open>max = 1e308\<close> and the value \<^verbatim>\<open>1e308\<close>, both
  \<open>value - min\<close> and \<open>max - min\<close> overflow to infinity, their quotient is NaN and so is
  the ratio, which is not in \<open>[0,1]\<close>. The peak builder passes these stats on as they
  are.
\<close>

theorem ratio_overflow_counterexample:
  "isFinite (Fin (10 ^ 308))
   \<and> js_gt plain_host (Num (Fin (10 ^ 308))) (Num (Fin (- (10 ^ 308))))
   \<and> statsMin (Obj [(''min'', Num (Fin (- (10 ^ 308)))), (''max'', Num (Fin (10 ^ 308)))])
       = Fin (- (10 ^ 308))
   \<and> statsMax (Obj [(''min'', Num (Fin (- (10 ^ 308)))), (''max'', Num (Fin (10 ^ 308)))])
       = Fin (10 ^ 308)
   \<and> ratio plain_host (Fin (10 ^ 308)) (Num (Fin (- (10 ^ 308)))) (Num (Fin (10 ^ 308))) = NaN"
proof -
  have o: "overflow_bound \<le> 10 ^ 308 - (- (10 ^ 308))"
    "overflow_bound \<le> \<bar>10 ^ 308 - (- (10 ^ 308))\<bar>"
    by (simp_all add: overflow_bound_def)
  have lt: "(- (10 ^ 308) :: real) < 10 ^ 308" by simp
  have r: "ratio plain_host (Fin (10 ^ 308)) (Num (Fin (- (10 ^ 308)))) (Num (Fin (10 ^ 308)))
          = NaN"
    using ratio_divisor_overflow [OF double_rounding_plain lt o(1), of "10 ^ 308"] o(2)
    by (simp only: if_True)
  have f: "isFinite (Fin (10 ^ 308))" by (rule isFinite.simps(1) [THEN iffD2]) simp
  have g: "js_gt plain_host (Num (Fin (10 ^ 308))) (Num (Fin (- (10 ^ 308))))"
    using lt by (simp only: js_gt_def to_primitive.simps prod.case jsval.case to_number.simps
                   jlt.simps)
  have s: "statsMin (Obj [(''min'', Num (Fin (- (10 ^ 308)))), (''max'', Num (Fin (10 ^ 308)))])
             = Fin (- (10 ^ 308))"
    "statsMax (Obj [(''min'', Num (Fin (- (10 ^ 308)))), (''max'', Num (Fin (10 ^ 308)))])
       = Fin (10 ^ 308)"
    by (simp_all add: statsMin_def statsMax_def)
  show ?thesis using f g s r by blast
qed

lemma peak_color_of_getPeakPoint:
  "getPeakPoint h fc stats = Inr (Some p) \<Longrightarrow>
     pk_color p = peak_color (ratio h (pk_value p) (Num (statsMin stats)) (Num (statsMax stats)))"
  by (auto simp: getPeakPoint_def Let_def split: if_splits sum.splits option.splits)

lemma line_color_of_getLineColor:
  "getLineColor h cs f = Inr c \<Longrightarrow>
     \<exists>val. c = line_color (ratio h val (rd_prop cs ''min'') (rd_prop cs ''max''))"
  by (auto simp: getLineColor_def Let_def split: if_splits)

text \<open>
  Claim C3. The colour is one of four fixed stops, chosen by steps and not interpolated:
  blue below 0.33, green from 0.33 and below 0.66, amber from 0.66 and below 0.9, red
  otherwise; so 0 is blue, 0.33 is green and 0.99 is red. The line colour has the same
  red, green and blue components with alpha 210, 210, 210 and 220. The peak marker and
  the line accessor colour their ratio in this way.
\<close>

theorem color_stops:
  "peak_color r \<in> {[46, 127, 255, 255], [39, 209, 124, 255], [255, 212, 77, 255],
                    [255, 59, 59, 255]}
   \<and> (x < 33 / 100 \<longrightarrow> peak_color (Fin x) = [46, 127, 255, 255])
   \<and> (33 / 100 \<le> x \<and> x < 66 / 100 \<longrightarrow> peak_color (Fin x) = [39, 209, 124, 255])
   \<and> (66 / 100 \<le> x \<and> x < 9 / 10 \<longrightarrow> peak_color (Fin x) = [255, 212, 77, 255])
   \<and> (9 / 10 \<le> x \<longrightarrow> peak_color (Fin x) = [255, 59, 59, 255])
   \<and> peak_color (Fin 0) = [46, 127, 255, 255]
   \<and> peak_color (Fin (33 / 100)) = [39, 209, 124, 255]
   \<and> peak_color (Fin (99 / 100)) = [255, 59, 59, 255]
   \<and> line_color r
       = butlast (peak_color r) @ [if peak_color r = [255, 59, 59, 255] then 220 else 210]
   \<and> (getPeakPoint h fc stats = Inr (Some p) \<longrightarrow>
        pk_color p
          = peak_color (ratio h (pk_value p) (Num (statsMin stats)) (Num (statsMax stats))))
   \<and> (getLineColor h cs f = Inr c \<longrightarrow>
        (\<exists>val. c = line_color (ratio h val (rd_prop cs ''min'') (rd_prop cs ''max''))))"
  using peak_color_of_getPeakPoint [of h fc stats p] line_color_of_getLineColor [of h cs f c]
  by (simp add: peak_color_def line_color_def)

lemma getPeakPoint_two_roads:
  "getPeakPoint plain_host
      (response_of [line_feature (Num (Fin 3)) road_a, line_feature (Num (Fin 7)) road_b]
         (Obj [(''min'', Num (Fin 0)), (''max'', Num (Fin 10))]))
      (Obj [(''min'', Num (Fin 0)), (''max'', Num (Fin 10))])
   = Inr (Some \<lparr>pk_position = (Fin 3, Fin 5), pk_color = [255, 212, 77, 255],
                 pk_size = Fin 32, pk_icon = ''marker'', pk_value = Fin 7\<rparr>)"
  by (simp add: getPeakPoint_def response_of_def line_feature_def road_a_def road_b_def
        iter_items_def peak_step_def feature_value_def getLineMiddlePoint_def half_sum_def
        js_add_def statsMin_def statsMax_def ratio_plain jmax_Fin jmin_Fin peak_color_def
        marker_size_def Let_def)

theorem color_stops_witness:
  "(1 / 10 :: real) < 33 / 100 \<and> peak_color (Fin (1 / 10)) = [46, 127, 255, 255]
   \<and> (33 / 100 :: real) \<le> 1 / 2 \<and> (1 / 2 :: real) < 66 / 100
   \<and> peak_color (Fin (1 / 2)) = [39, 209, 124, 255]
   \<and> (66 / 100 :: real) \<le> 7 / 10 \<and> (7 / 10 :: real) < 9 / 10
   \<and> peak_color (Fin (7 / 10)) = [255, 212, 77, 255]
   \<and> (9 / 10 :: real) \<le> 1 \<and> peak_color (Fin 1) = [255, 59, 59, 255]
   \<and> line_color (Fin 1) = [255, 59, 59, 220]
   \<and> pk_color \<lparr>pk_position = (Fin 3, Fin 5), pk_color = [255, 212, 77, 255],
                 pk_size = Fin 32, pk_icon = ''marker'', pk_value = Fin 7\<rparr>
       = peak_color (ratio plain_host (Fin 7) (Num (Fin 0)) (Num (Fin 10)))
   \<and> getLineColor plain_host defaultStats (line_feature (Num (Fin (1 / 2))) road_a)
       = Inr [39, 209, 124, 210]"
  using color_stops [where x = "1 / 10"] color_stops [where x = "1 / 2"]
        color_stops [where x = "7 / 10"]
        color_stops [where x = 1 and r = "Fin 1" and h = plain_host
          and fc = "response_of [line_feature (Num (Fin 3)) road_a,
                                 line_feature (Num (Fin 7)) road_b]
                      (Obj [(''min'', Num (Fin 0)), (''max'', Num (Fin 10))])"
          and stats = "Obj [(''min'', Num (Fin 0)), (''max'', Num (Fin 10))]"
          and p = "\<lparr>pk_position = (Fin 3, Fin 5), pk_color = [255, 212, 77, 255],
                     pk_size = Fin 32, pk_icon = ''marker'', pk_value = Fin 7\<rparr>"]
        getPeakPoint_two_roads
  by (simp add: getLineColor_def line_feature_def defaultStats_def ratio_plain line_color_def
        statsMin_def statsMax_def)

subsection \<open>Refresh: stats and legend\<close>




lemma getSliderEpoch_loaded: "getSliderEpoch page_loaded = Some (Fin 1500)"
  by (simp add: getSliderEpoch_def page_loaded_def page_unloaded_def jsub_def)




subsection \<open>Refresh: malformed payloads\<close>

text \<open>
  Claim C4. A payload that is not a well-formed FeatureCollection is normalised to the
  empty one, and the refresh never throws on a malformed payload. The code breaks the
  second part at the payload \<^verbatim>\<open>null\<close>: it is normalised, and then the next statement
  reads \<^verbatim>\<open>response.stats\<close> of the raw response and throws a TypeError, after the
  request was issued and before any layer or legend is updated. This holds on every page
  where the traffic layer is on and the time range is loaded.
\<close>

theorem refresh_null_payload_throws:
  "chkTraffic s \<and> getSliderEpoch s = Some epoch \<Longrightarrow>
     normalizeFeatureCollection Null = emptyFeatureCollection
   \<and> loadTrafficForCurrentSlider h (\<lambda>rq. Inr Null) s
       = (s\<lparr>requests := requests s @
               [\<lparr>rq_fr = fst (getWindowFromEpoch epoch (Fin 5)),
                 rq_to = snd (getWindowFromEpoch epoch (Fin 5)),
                 rq_veh_class = classSelect s, rq_metric = metricSelect s\<rparr>]\<rparr>,
          Some TypeError)"
  by (simp add: normalizeFeatureCollection_def isFeatureCollection_def
        loadTrafficForCurrentSlider_def get_prop_def Let_def)

theorem refresh_null_payload_throws_witness:
  "chkTraffic page_loaded \<and> getSliderEpoch page_loaded = Some (Fin 1500)
   \<and> normalizeFeatureCollection Null = emptyFeatureCollection
   \<and> loadTrafficForCurrentSlider plain_host (\<lambda>rq. Inr Null) page_loaded
       = (page_loaded\<lparr>requests := [\<lparr>rq_fr = Fin 1200, rq_to = Fin 1800, rq_veh_class = ''all'',
                                      rq_metric = ''count''\<rparr>]\<rparr>, Some TypeError)
   \<and> legendMin (fst (loadTrafficForCurrentSlider plain_host (\<lambda>rq. Inr Null) page_loaded))
       = legendMin page_loaded
   \<and> trafficData (fst (loadTrafficForCurrentSlider plain_host (\<lambda>rq. Inr Null) page_loaded))
       = trafficData page_loaded"
proof -
  have c: "chkTraffic page_loaded" by (simp add: page_loaded_def page_unloaded_def)
  note t = refresh_null_payload_throws [OF conjI [OF c getSliderEpoch_loaded], of plain_host]
  have w: "getWindowFromEpoch (Fin 1500) (Fin 5) = (Fin 1200, Fin 1800)"
    by (simp add: getWindowFromEpoch_def jsub_def)
  have r: "requests page_loaded = []" "classSelect page_loaded = ''all''"
    "metricSelect page_loaded = ''count''"
    by (simp_all add: page_loaded_def page_unloaded_def)
  show ?thesis
    using c getSliderEpoch_loaded t by (simp add: w r)
qed

text \<open>
  A second way into the same failure: a well-formed collection whose feature list holds
  \<^verbatim>\<open>null\<close> passes the peak builder, which skips falsy features, and throws in the
  label builder, which reads \<^verbatim>\<open>feature.geometry\<close> unguarded.
\<close>

lemma refresh_null_feature_throws:
  "snd (loadTrafficForCurrentSlider plain_host (\<lambda>rq. Inr (response_of [Null] Null))
          page_loaded) = Some TypeError"
  by (simp add: loadTrafficForCurrentSlider_def getSliderEpoch_def jsub_def get_prop_def
        response_of_def normalizeFeatureCollection_def isFeatureCollection_def
        getPeakPoint_def iter_items_def peak_step_def buildValuesLabels_def Let_def
        page_loaded_def page_unloaded_def)

subsection \<open>Slider transitions\<close>

lemma refresh_slider_unchanged:
  "slider_value (fst (loadTrafficForCurrentSlider h fetchJson s)) = slider_value s
   \<and> slider_max (fst (loadTrafficForCurrentSlider h fetchJson s)) = slider_max s"
  by (simp add: loadTrafficForCurrentSlider_def Let_def split: option.splits sum.splits)

lemma play_tick_slider:
  "slider_value (fst (play_tick h fetchJson s))
     = max 0 (min (slider_max s) (if slider_value s \<ge> slider_max s then 0 else slider_value s + 2))
   \<and> slider_max (fst (play_tick h fetchJson s)) = slider_max s"
  by (simp add: play_tick_def set_slider_value_def Let_def refresh_slider_unchanged)

lemma btnPrev_slider:
  "slider_value (fst (btnPrev_click h fetchJson s))
     = (if chkTraffic s then max 0 (min (slider_max s) (max 0 (slider_value s - 20)))
        else slider_value s)
   \<and> slider_max (fst (btnPrev_click h fetchJson s)) = slider_max s"
  by (simp add: btnPrev_click_def set_slider_value_def Let_def refresh_slider_unchanged)

lemma btnNext_slider:
  "slider_value (fst (btnNext_click h fetchJson s))
     = (if chkTraffic s then max 0 (min (slider_max s) (min (slider_max s) (slider_value s + 20)))
        else slider_value s)
   \<and> slider_max (fst (btnNext_click h fetchJson s)) = slider_max s"
  by (simp add: btnNext_click_def set_slider_value_def Let_def refresh_slider_unchanged)

text \<open>
  Claim C9, as amended. The position stays an integer in \<open>[0, max]\<close>: the previous and
  next buttons move it by 20 and clamp it to \<open>[0, max]\<close>; a playback tick at the maximum
  wraps to 0, and a tick below the maximum adds 2 without passing the maximum, so that
  one step before the maximum it lands on the maximum; no transition leaves the range or
  changes the maximum.
\<close>

theorem slider_steps:
  "0 \<le> slider_value s \<and> slider_value s \<le> slider_max s \<Longrightarrow>
     0 \<le> slider_value (fst (btnPrev_click h fetchJson s))
   \<and> slider_value (fst (btnPrev_click h fetchJson s)) \<le> slider_max s
   \<and> 0 \<le> slider_value (fst (btnNext_click h fetchJson s))
   \<and> slider_value (fst (btnNext_click h fetchJson s)) \<le> slider_max s
   \<and> 0 \<le> slider_value (fst (play_tick h fetchJson s))
   \<and> slider_value (fst (play_tick h fetchJson s)) \<le> slider_max s
   \<and> slider_max (fst (btnPrev_click h fetchJson s)) = slider_max s
   \<and> slider_max (fst (btnNext_click h fetchJson s)) = slider_max s
   \<and> slider_max (fst (play_tick h fetchJson s)) = slider_max s
   \<and> (chkTraffic s \<longrightarrow>
        slider_value (fst (btnPrev_click h fetchJson s)) = max 0 (slider_value s - 20)
        \<and> slider_value (fst (btnNext_click h fetchJson s))
            = min (slider_max s) (slider_value s + 20))
   \<and> (\<not> chkTraffic s \<longrightarrow>
        slider_value (fst (btnPrev_click h fetchJson s)) = slider_value s
        \<and> slider_value (fst (btnNext_click h fetchJson s)) = slider_value s)
   \<and> slider_value (fst (play_tick h fetchJson s))
        = (if slider_value s = slider_max s then 0
           else min (slider_max s) (slider_value s + 2))"
  by (auto simp: play_tick_slider btnPrev_slider btnNext_slider)

theorem slider_steps_witness:
  "0 \<le> slider_value page_loaded \<and> slider_value page_loaded \<le> slider_max page_loaded
   \<and> chkTraffic page_loaded
   \<and> slider_max page_loaded = 1000
   \<and> slider_value (fst (btnPrev_click plain_host (\<lambda>rq. Inr emptyFeatureCollection)
                          page_loaded)) = 480
   \<and> slider_value (fst (btnNext_click plain_host (\<lambda>rq. Inr emptyFeatureCollection)
                          page_loaded)) = 520
   \<and> slider_value (fst (play_tick plain_host (\<lambda>rq. Inr emptyFeatureCollection)
                          page_loaded)) = 502
   \<and> slider_value (fst (btnPrev_click plain_host (\<lambda>rq. Inr emptyFeatureCollection)
                          (page_loaded\<lparr>slider_value := 5\<rparr>))) = 0
   \<and> slider_value (fst (btnNext_click plain_host (\<lambda>rq. Inr emptyFeatureCollection)
                          (page_loaded\<lparr>slider_value := 995\<rparr>))) = 1000
   \<and> slider_value (fst (play_tick plain_host (\<lambda>rq. Inr emptyFeatureCollection)
                          (page_loaded\<lparr>slider_value := 1000\<rparr>))) = 0
   \<and> slider_value (fst (btnPrev_click plain_host (\<lambda>rq. Inr emptyFeatureCollection)
                          (page_loaded\<lparr>chkTraffic := False\<rparr>))) = 500"
proof -
  have p: "slider_value page_loaded = 500" "slider_max page_loaded = 1000"
    "chkTraffic page_loaded"
    by (simp_all add: page_loaded_def page_unloaded_def)
  have a: "0 \<le> slider_value (page_loaded\<lparr>slider_value := v\<rparr>)
           \<and> slider_value (page_loaded\<lparr>slider_value := v\<rparr>)
               \<le> slider_max (page_loaded\<lparr>slider_value := v\<rparr>)"
    if "0 \<le> v" "v \<le> 1000" for v
    using that p by simp
  have b: "0 \<le> slider_value page_loaded \<and> slider_value page_loaded \<le> slider_max page_loaded"
    using p by simp
  have c: "0 \<le> slider_value (page_loaded\<lparr>chkTraffic := False\<rparr>)
           \<and> slider_value (page_loaded\<lparr>chkTraffic := False\<rparr>)
               \<le> slider_max (page_loaded\<lparr>chkTraffic := False\<rparr>)"
    using p by simp
  show ?thesis
    using slider_steps [OF b, of plain_host "\<lambda>rq. Inr emptyFeatureCollection"]
          slider_steps [OF a [of 5], of plain_host "\<lambda>rq. Inr emptyFeatureCollection"]
          slider_steps [OF a [of 995], of plain_host "\<lambda>rq. Inr emptyFeatureCollection"]
          slider_steps [OF a [of 1000], of plain_host "\<lambda>rq. Inr emptyFeatureCollection"]
          slider_steps [OF c, of plain_host "\<lambda>rq. Inr emptyFeatureCollection"]
          p
    by simp
qed

text \<open>
  Claim C9 as stated fails one step before the maximum: from 999 with a maximum of 1000
  the tick neither adds 2 nor wraps to 0. The script assigns 1001, the slider holds 1000,
  and it is the following tick that wraps to 0.
\<close>

theorem play_tick_below_max_counterexample:
  "slider_value (page_loaded\<lparr>slider_value := 999\<rparr>) = 999
   \<and> slider_max (page_loaded\<lparr>slider_value := 999\<rparr>) = 1000
   \<and> slider_value (fst (play_tick plain_host (\<lambda>rq. Inr emptyFeatureCollection)
                          (page_loaded\<lparr>slider_value := 999\<rparr>))) = 1000
   \<and> slider_value (fst (play_tick plain_host (\<lambda>rq. Inr emptyFeatureCollection)
         (fst (play_tick plain_host (\<lambda>rq. Inr emptyFeatureCollection)
                 (page_loaded\<lparr>slider_value := 999\<rparr>))))) = 0"
  by (simp add: play_tick_slider page_loaded_def page_unloaded_def)

subsection \<open>Peak selection\<close>












text \<open>A winner that is a \<^verbatim>\<open>LineString\<close> of a single point has no midpoint: the
  result is null.\<close>

lemma getPeakPoint_short_line:
  "getPeakPoint plain_host
      (response_of [line_feature (Num (Fin 5)) (Arr [Arr [Num (Fin 0), Num (Fin 0)]])]
         defaultStats) defaultStats = Inr None"
  by (simp add: getPeakPoint_def response_of_def line_feature_def iter_items_def
        peak_step_def feature_value_def getLineMiddlePoint_def Let_def)

end
